theory Spec2Isabelle
  imports Complex_Main "HOL-Library.Word" "HOL-Library.Signed_Division"
begin

section \<open>The faucet's request loop (ws.go, faucet.go)\<close>

text \<open>
  The model follows \<^verbatim>\<open>OnWebsocket\<close> in ws.go, lines 117 to 177: one iteration of the
  \<^verbatim>\<open>for\<close> loop reads a request, validates the tier, checks the identifier's timeout under
  \<^verbatim>\<open>faucet.lock\<close>, computes the amount, calls \<^verbatim>\<open>SendTx\<close>, stores the new timeout and
  replies.

  Go's \<^verbatim>\<open>int\<close>, \<^verbatim>\<open>uint\<close>, \<^verbatim>\<open>int64\<close> and \<^verbatim>\<open>time.Duration\<close> are 64-bit words (a 64-bit
  platform): \<open>*\<close>, \<open>-\<close> wrap, \<open>sint\<close> reads the signed value. \<^verbatim>\<open>big.Int\<close> is \<open>int\<close>.
  A \<^verbatim>\<open>time.Time\<close> is its position on the clock's time line, in nanoseconds after the
  zero \<^verbatim>\<open>Time\<close> (the value a missing map key reads as), an unbounded \<open>int\<close>.
\<close>

subsection \<open>Configuration and messages\<close>

text \<open>The flags of faucet.go that the loop reads: \<^verbatim>\<open>faucet.tiers\<close> (\<^verbatim>\<open>flag.Int\<close>),
  \<^verbatim>\<open>faucet.amount\<close> (\<^verbatim>\<open>flag.Float64\<close>; a finite float64 is a rational number) and
  \<^verbatim>\<open>faucet.minutes\<close> (\<^verbatim>\<open>flag.Int\<close>).\<close>

record config =
  tiersFlag :: "64 word"
  payoutFlag :: rat
  minutesFlag :: "64 word"

text \<open>The request struct \<^verbatim>\<open>msg\<close> of ws.go, line 119.\<close>

record msg =
  URL :: string
  Tier :: "64 word"
  Captcha :: string

text \<open>A reply is the JSON object \<^verbatim>\<open>{"error": s}\<close> of \<^verbatim>\<open>sendError\<close> or
  \<^verbatim>\<open>{"success": s}\<close> of \<^verbatim>\<open>sendSuccess\<close>.\<close>

datatype reply = ErrorReply string | SuccessReply string

text \<open>What one iteration does to the shared state and the outside, in program order:
  \<^verbatim>\<open>faucet.lock.Lock()\<close>, \<^verbatim>\<open>faucet.lock.Unlock()\<close>, the read \<^verbatim>\<open>faucet.timeouts[url]\<close>,
  the call \<^verbatim>\<open>SendTx(amount, url)\<close>, the write \<^verbatim>\<open>faucet.timeouts[url] = t\<close>, and the
  reply handed to \<^verbatim>\<open>send\<close>.\<close>

datatype event =
    Lock
  | Unlock
  | ReadTimeouts string
  | CallSendTx int string
  | WriteTimeouts string int
  | Send reply

text \<open>What an iteration gets from outside the handler: the three readings of
  \<^verbatim>\<open>time.Now()\<close> (line 142, line 160, and inside \<^verbatim>\<open>time.Until\<close> at line 167), the
  result of \<^verbatim>\<open>SendTx\<close> (\<open>None\<close> is a nil error, \<open>Some s\<close> an error whose \<^verbatim>\<open>Error()\<close> is
  \<open>s\<close>), whether the write of the reply succeeds, go-ethereum's \<^verbatim>\<open>common.PrettyDuration\<close>,
  and the value of \<^verbatim>\<open>int(math.Pow(3, float64(tier)))\<close> where binary64 no longer holds
  \<open>3 ^ tier\<close> exactly (see \<open>pow3_int\<close>).\<close>

record env =
  now_check :: int
  now_commit :: int
  now_until :: int
  send_tx :: "int \<Rightarrow> string \<Rightarrow> string option"
  send_ok :: bool
  pretty_duration :: "64 word \<Rightarrow> string"
  pow3_rounded :: "64 word \<Rightarrow> 64 word"

record outcome =
  timeouts_out :: "string \<rightharpoonup> int"
  trace :: "event list"
  alive :: bool

subsection \<open>The amount (ws.go, lines 144 to 146)\<close>

text \<open>\<^verbatim>\<open>ether\<close> of faucet.go, line 55: the number \<open>10 ^ 18\<close>. (The commented-out
  line 54 builds the same number as a \<^verbatim>\<open>big.Int\<close>, the type that \<^verbatim>\<open>Mul\<close> at ws.go
  line 144 takes.)\<close>

definition ether :: int where
  "ether = 1000000000000000000"

text \<open>The conversion \<^verbatim>\<open>int64(f)\<close> of a float64: the fraction is dropped (truncation
  towards zero). Go leaves the result to the implementation when the truncated value
  does not fit int64; the model is the truncated value, meant for
  \<open>- 2 ^ 63 \<le> f\<close>, \<open>f < 2 ^ 63\<close>.\<close>

definition int64_of_float64 :: "rat \<Rightarrow> int" where
  "int64_of_float64 f = (if 0 \<le> f then \<lfloor>f\<rfloor> else \<lceil>f\<rceil>)"

text \<open>\<^verbatim>\<open>new(big.Int).Exp(x, y, nil)\<close>: \<open>x ** y\<close>, and 1 when \<open>y \<le> 0\<close>.\<close>

definition big_Exp :: "int \<Rightarrow> int \<Rightarrow> int" where
  "big_Exp x y = (if y \<le> 0 then 1 else x ^ nat y)"

text \<open>\<^verbatim>\<open>new(big.Int).Div(x, y)\<close>: Euclidean division (the remainder is never negative).
  For a positive divisor the Euclidean quotient is the floor, HOL's \<open>div\<close>. \<^verbatim>\<open>Div\<close>
  panics on the divisor 0; the divisor at line 146 is a result of \<^verbatim>\<open>Exp\<close> with base 2,
  at least 1.\<close>

definition big_Div :: "int \<Rightarrow> int \<Rightarrow> int" where
  "big_Div x y = (if 0 < y then x div y else - (x div (- y)))"

text \<open>Lines 144 to 146; \<^verbatim>\<open>big.NewInt(int64(msg.Tier))\<close> reads the tier as a signed
  value.\<close>

definition payout_amount :: "config \<Rightarrow> 64 word \<Rightarrow> int" where
  "payout_amount cfg tier =
     (let amount = int64_of_float64 (payoutFlag cfg) * ether;
          amount = amount * big_Exp 5 (sint tier);
          amount = big_Div amount (big_Exp 2 (sint tier))
      in amount)"

subsection \<open>The timeout (ws.go, lines 157 to 160)\<close>

text \<open>\<^verbatim>\<open>int(math.Pow(3, float64(tier)))\<close>. Up to tier 33 the power is below \<open>2 ^ 53\<close>,
  every intermediate product of \<^verbatim>\<open>math.Pow\<close> is a binary64 value, and the result is
  \<open>3 ^ tier\<close>. Beyond, binary64 rounds (and from tier 40 on the value no longer fits
  int64): the result is the environment's.\<close>

definition pow3_int :: "env \<Rightarrow> 64 word \<Rightarrow> 64 word" where
  "pow3_int e tier = (if tier \<le> 33 then 3 ^ unat tier else pow3_rounded e tier)"

text \<open>\<^verbatim>\<open>time.Minute\<close>, in nanoseconds.\<close>

definition Minute :: "64 word" where
  "Minute = 60000000000"

text \<open>Line 157: \<^verbatim>\<open>time.Duration(*minutesFlag * int(math.Pow(3, float64(msg.Tier)))) * time.Minute\<close>,
  two wrapping 64-bit products.\<close>

definition cooldown :: "config \<Rightarrow> env \<Rightarrow> 64 word \<Rightarrow> 64 word" where
  "cooldown cfg e tier = (minutesFlag cfg * pow3_int e tier) * Minute"

text \<open>Line 158: \<^verbatim>\<open>timeout / 288\<close>, Go's division of signed integers, which truncates
  towards zero (\<open>sdiv\<close> on \<open>int\<close>); the quotient by 288 fits 64 bits.\<close>

definition grace :: "64 word \<Rightarrow> 64 word" where
  "grace timeout = word_of_int (sint timeout sdiv 288)"

text \<open>\<^verbatim>\<open>t.Add(d)\<close>.\<close>

definition time_Add :: "int \<Rightarrow> 64 word \<Rightarrow> int" where
  "time_Add t d = t + sint d"

text \<open>\<^verbatim>\<open>t.After(u)\<close>: strictly later.\<close>

definition time_After :: "int \<Rightarrow> int \<Rightarrow> bool" where
  "time_After t u = (u < t)"

text \<open>\<^verbatim>\<open>time.Until(t)\<close>, that is \<^verbatim>\<open>t.Sub(time.Now())\<close>: the difference, saturated to the
  range of a \<^verbatim>\<open>Duration\<close>.\<close>

definition time_Until :: "int \<Rightarrow> int \<Rightarrow> 64 word" where
  "time_Until t now = word_of_int (max (- (2 ^ 63)) (min (2 ^ 63 - 1) (t - now)))"

text \<open>\<^verbatim>\<open>faucet.timeouts[url]\<close>: a missing key reads as the zero \<^verbatim>\<open>Time\<close>.\<close>

definition lookup_timeout :: "(string \<rightharpoonup> int) \<Rightarrow> string \<Rightarrow> int" where
  "lookup_timeout timeouts url = (case timeouts url of None \<Rightarrow> 0 | Some t \<Rightarrow> t)"

text \<open>The condition of line 142, \<^verbatim>\<open>time.Now().After(faucet.timeouts[msg.URL])\<close>.\<close>

definition eligible :: "(string \<rightharpoonup> int) \<Rightarrow> string \<Rightarrow> int \<Rightarrow> bool" where
  "eligible timeouts url now = time_After now (lookup_timeout timeouts url)"

subsection \<open>One iteration of the loop (ws.go, lines 117 to 177)\<close>

text \<open>The body of the \<^verbatim>\<open>for\<close> loop after a request has been read. \<open>alive\<close> is False
  where the handler returns (a failed \<^verbatim>\<open>send\<close>), True where the loop goes on to the next
  \<^verbatim>\<open>ReadJSON\<close>.\<close>

definition OnWebsocket_iter :: "config \<Rightarrow> env \<Rightarrow> (string \<rightharpoonup> int) \<Rightarrow> msg \<Rightarrow> outcome" where
  "OnWebsocket_iter cfg e timeouts m =
     (if tiersFlag cfg \<le> Tier m then
        \<lparr>timeouts_out = timeouts,
         trace = [Send (ErrorReply ''Invalid funding tier requested'')],
         alive = send_ok e\<rparr>
      else if eligible timeouts (URL m) (now_check e) then
        (let amount = payout_amount cfg (Tier m) in
         case send_tx e amount (URL m) of
           Some err \<Rightarrow>
             \<lparr>timeouts_out = timeouts,
              trace = [Lock, ReadTimeouts (URL m), CallSendTx amount (URL m), Unlock,
                       Send (ErrorReply err)],
              alive = send_ok e\<rparr>
         | None \<Rightarrow>
             (let timeout = cooldown cfg e (Tier m);
                  next = time_Add (now_commit e) (timeout - grace timeout)
              in \<lparr>timeouts_out = timeouts(URL m \<mapsto> next),
                  trace = [Lock, ReadTimeouts (URL m), CallSendTx amount (URL m),
                           WriteTimeouts (URL m) next, Unlock,
                           Send (SuccessReply (''Funding request accepted for Faucet into '' @ URL m))],
                  alive = send_ok e\<rparr>))
      else
        \<lparr>timeouts_out = timeouts,
         trace = [Lock, ReadTimeouts (URL m), Unlock,
                  Send (ErrorReply
                    (pretty_duration e (time_Until (lookup_timeout timeouts (URL m)) (now_until e))
                     @ '' left until next allowance''))],
         alive = send_ok e\<rparr>)"

text \<open>The loop: each element of the list is one request that \<^verbatim>\<open>ReadJSON\<close> delivers,
  with the environment of its iteration; the end of the list is the read error on which
  the handler returns. The result is the map of timeouts and the events of the whole
  run.\<close>

fun OnWebsocket_loop ::
  "config \<Rightarrow> (string \<rightharpoonup> int) \<Rightarrow> (env \<times> msg) list \<Rightarrow> (string \<rightharpoonup> int) \<times> event list" where
  "OnWebsocket_loop cfg timeouts [] = (timeouts, [])"
| "OnWebsocket_loop cfg timeouts ((e, m) # rest) =
     (let out = OnWebsocket_iter cfg e timeouts m in
      if alive out then
        (let (timeouts', evs) = OnWebsocket_loop cfg (timeouts_out out) rest
         in (timeouts', trace out @ evs))
      else (timeouts_out out, trace out))"

subsection \<open>Reading a trace\<close>

text \<open>Each event of a trace with the state of \<^verbatim>\<open>faucet.lock\<close> when it happens
  (\<open>held\<close> is the state before the first event).\<close>

fun lock_states :: "bool \<Rightarrow> event list \<Rightarrow> (event \<times> bool) list" where
  "lock_states held [] = []"
| "lock_states held (Lock # evs) = (Lock, held) # lock_states True evs"
| "lock_states held (Unlock # evs) = (Unlock, held) # lock_states False evs"
| "lock_states held (ev # evs) = (ev, held) # lock_states held evs"

fun is_CallSendTx :: "event \<Rightarrow> bool" where
  "is_CallSendTx (CallSendTx a u) = True"
| "is_CallSendTx ev = False"

fun is_Send :: "event \<Rightarrow> bool" where
  "is_Send (Send r) = True"
| "is_Send ev = False"

fun touches_timeouts :: "event \<Rightarrow> bool" where
  "touches_timeouts (ReadTimeouts u) = True"
| "touches_timeouts (WriteTimeouts u t) = True"
| "touches_timeouts Lock = True"
| "touches_timeouts Unlock = True"
| "touches_timeouts ev = False"

text \<open>The lock is free at every call of \<^verbatim>\<open>SendTx\<close> of the trace.\<close>

definition lock_free_at_SendTx :: "event list \<Rightarrow> bool" where
  "lock_free_at_SendTx evs = list_all (\<lambda>(ev, held). is_CallSendTx ev \<longrightarrow> \<not> held) (lock_states False evs)"

text \<open>The lock is held at every call of \<^verbatim>\<open>SendTx\<close> of the trace.\<close>

definition lock_held_at_SendTx :: "event list \<Rightarrow> bool" where
  "lock_held_at_SendTx evs = list_all (\<lambda>(ev, held). is_CallSendTx ev \<longrightarrow> held) (lock_states False evs)"

text \<open>The lock is free at every reply of the trace.\<close>

definition lock_free_at_Send :: "event list \<Rightarrow> bool" where
  "lock_free_at_Send evs = list_all (\<lambda>(ev, held). is_Send ev \<longrightarrow> \<not> held) (lock_states False evs)"

text \<open>A read or a write of \<^verbatim>\<open>faucet.timeouts\<close>.\<close>

fun is_timeouts_access :: "event \<Rightarrow> bool" where
  "is_timeouts_access (ReadTimeouts u) = True"
| "is_timeouts_access (WriteTimeouts u t) = True"
| "is_timeouts_access ev = False"

text \<open>The lock is held at every read and every write of \<^verbatim>\<open>faucet.timeouts\<close> of the
  trace.\<close>

definition lock_held_at_timeouts :: "event list \<Rightarrow> bool" where
  "lock_held_at_timeouts evs =
     list_all (\<lambda>(ev, held). is_timeouts_access ev \<longrightarrow> held) (lock_states False evs)"

text \<open>The state of the lock after a trace.\<close>

fun lock_after :: "bool \<Rightarrow> event list \<Rightarrow> bool" where
  "lock_after held [] = held"
| "lock_after held (Lock # evs) = lock_after True evs"
| "lock_after held (Unlock # evs) = lock_after False evs"
| "lock_after held (ev # evs) = lock_after held evs"

subsection \<open>The specification's wording, for comparison\<close>

text \<open>Section 4.1 of the specification: the check is whether \<open>now\<close> is at or after the
  stored next-eligible-time, an absent entry being allowed.\<close>

definition CheckAndReserve_spec :: "(string \<rightharpoonup> int) \<Rightarrow> string \<Rightarrow> int \<Rightarrow> bool" where
  "CheckAndReserve_spec timeouts url now =
     (case timeouts url of None \<Rightarrow> True | Some t \<Rightarrow> t \<le> now)"

text \<open>Section 4.2 of the specification: \<open>basePayout \<times> 5 ^ tier / 2 ^ tier\<close>, in token
  units (\<open>10 ^ 18\<close> to the unit), as an exact rational.\<close>

definition payout_spec :: "rat \<Rightarrow> nat \<Rightarrow> rat" where
  "payout_spec basePayout tier = basePayout * 10 ^ 18 * 5 ^ tier / 2 ^ tier"

text \<open>Section 4.2 of the specification: \<open>baseCooldownMinutes \<times> 3 ^ tier\<close> minutes, in
  nanoseconds.\<close>

definition cooldown_spec :: "int \<Rightarrow> nat \<Rightarrow> int" where
  "cooldown_spec baseCooldownMinutes tier = baseCooldownMinutes * 3 ^ tier * 60000000000"

subsection \<open>Concrete configurations and environments\<close>

text \<open>The defaults of faucet.go: two tiers, one unit, 1440 minutes.\<close>

definition cfg_defaults :: config where
  "cfg_defaults = \<lparr>tiersFlag = 2, payoutFlag = 1, minutesFlag = 1440\<rparr>"

text \<open>The defaults with \<^verbatim>\<open>-faucet.tiers 20\<close>.\<close>

definition cfg_tiers20 :: config where
  "cfg_tiers20 = \<lparr>tiersFlag = 20, payoutFlag = 1, minutesFlag = 1440\<rparr>"

text \<open>The defaults with \<^verbatim>\<open>-faucet.amount 0.5\<close>.\<close>

definition cfg_half :: config where
  "cfg_half = \<lparr>tiersFlag = 2, payoutFlag = 1 / 2, minutesFlag = 1440\<rparr>"

text \<open>An iteration whose clock reads \<open>t\<close> throughout, whose transaction is accepted and
  whose reply is written.\<close>

definition env_ok :: "int \<Rightarrow> env" where
  "env_ok t =
     \<lparr>now_check = t, now_commit = t, now_until = t, send_tx = (\<lambda>amount url. None),
      send_ok = True, pretty_duration = (\<lambda>d. ''5m0s''), pow3_rounded = (\<lambda>tier. 0)\<rparr>"


text \<open>A request for the identifier \<^verbatim>\<open>0xabc\<close> at the given tier.\<close>

definition req :: "64 word \<Rightarrow> msg" where
  "req tier = \<lparr>URL = ''0xabc'', Tier = tier, Captcha = ''''\<rparr>"

section \<open>Properties\<close>

subsection \<open>What a call of SendTx in the trace means\<close>

lemma SendTx_in_trace:
  assumes "CallSendTx amount url \<in> set (trace (OnWebsocket_iter cfg e timeouts m))"
  shows "Tier m < tiersFlag cfg \<and> eligible timeouts (URL m) (now_check e)
       \<and> amount = payout_amount cfg (Tier m) \<and> url = URL m"
  using assms by (auto simp: OnWebsocket_iter_def Let_def split: if_splits option.splits)

subsection \<open>Tier validation\<close>

text \<open>
  C7, as the code has it. A request whose tier is at or above the configured count gets
  exactly one reply, the error \<^verbatim>\<open>Invalid funding tier requested\<close> (the capital is the
  code's, kept against the linter on purpose, line 128). The iteration takes no lock,
  neither reads nor writes the timeouts, calls no \<^verbatim>\<open>SendTx\<close>, and leaves the map as it
  was; the loop goes on to the next request exactly when the reply was written.
\<close>

theorem invalid_tier_rejected:
  assumes "tiersFlag cfg \<le> Tier m"
  shows "trace (OnWebsocket_iter cfg e timeouts m)
           = [Send (ErrorReply ''Invalid funding tier requested'')]
       \<and> timeouts_out (OnWebsocket_iter cfg e timeouts m) = timeouts
       \<and> alive (OnWebsocket_iter cfg e timeouts m) = send_ok e
       \<and> \<not> list_ex touches_timeouts (trace (OnWebsocket_iter cfg e timeouts m))
       \<and> \<not> list_ex is_CallSendTx (trace (OnWebsocket_iter cfg e timeouts m))"
  using assms by (simp add: OnWebsocket_iter_def)

theorem invalid_tier_rejected_witness:
  "tiersFlag cfg_defaults \<le> Tier (req 2)
   \<and> trace (OnWebsocket_iter cfg_defaults (env_ok 5) Map.empty (req 2))
       = [Send (ErrorReply ''Invalid funding tier requested'')]
   \<and> alive (OnWebsocket_iter cfg_defaults (env_ok 5) Map.empty (req 2))"
  using invalid_tier_rejected [of cfg_defaults "req 2" "env_ok 5" Map.empty]
  by (simp add: cfg_defaults_def env_ok_def req_def)

text \<open>
  C7, as the claim words it: the reply \<^verbatim>\<open>invalid funding tier requested\<close>, in lower
  case, is not among the events of the iteration for tier 2 of 2.
\<close>

theorem lowercase_tier_error_counterexample:
  "Send (ErrorReply ''invalid funding tier requested'')
     \<notin> set (trace (OnWebsocket_iter cfg_defaults (env_ok 5) Map.empty (req 2)))"
  by (simp add: OnWebsocket_iter_def cfg_defaults_def req_def)

subsection \<open>A failed submission\<close>



subsection \<open>The grace period\<close>

text \<open>Truncating division by 288 keeps the sign and does not grow the value, so neither
  the quotient nor \<^verbatim>\<open>timeout - grace\<close> leaves the 64-bit range.\<close>

lemma sdiv_288_nonneg:
  fixes x :: int
  shows "0 \<le> x \<Longrightarrow> 0 \<le> x sdiv 288 \<and> x sdiv 288 \<le> x"
  by (simp add: signed_divide_int_def sgn_if) linarith

lemma sdiv_288_nonpos:
  fixes x :: int
  shows "x \<le> 0 \<Longrightarrow> x \<le> x sdiv 288 \<and> x sdiv 288 \<le> 0"
  by (simp add: signed_divide_int_def sgn_if) linarith

lemma sint64_range: "- (2 ^ 63) \<le> sint (d :: 64 word) \<and> sint d < 2 ^ 63"
  using sint_ge [of d] sint_lt [of d] by simp

lemma sint_grace: "sint (grace d) = sint d sdiv 288"
proof -
  have "- (2 ^ 63) \<le> sint d sdiv 288 \<and> sint d sdiv 288 < 2 ^ 63"
    using sint64_range [of d] sdiv_288_nonneg [of "sint d"] sdiv_288_nonpos [of "sint d"]
    by (cases "0 \<le> sint d") auto
  then show ?thesis
    by (simp add: grace_def sint_sbintrunc' signed_take_bit_int_eq_self)
qed

lemma sint_sub_grace: "sint (d - grace d) = sint d - sint (grace d)"
proof -
  have "- (2 ^ 63) \<le> sint d - sint d sdiv 288 \<and> sint d - sint d sdiv 288 < 2 ^ 63"
    using sint64_range [of d] sdiv_288_nonneg [of "sint d"] sdiv_288_nonpos [of "sint d"]
    by (cases "0 \<le> sint d") auto
  then show ?thesis
    by (simp add: sint_word_diff sint_grace signed_take_bit_int_eq_self)
qed

lemma sub_grace_nonneg: "0 \<le> sint d \<Longrightarrow> 0 \<le> sint (d - grace d)"
  using sdiv_288_nonneg [of "sint d"] by (simp add: sint_sub_grace sint_grace)

subsection \<open>The timeout within range\<close>

text \<open>Where \<open>baseCooldownMinutes \<times> 3 ^ tier\<close> minutes fit 64 bits of nanoseconds (and
  the tier is at most 33), the timeout of line 157 is that value.\<close>

lemma cooldown_exact:
  assumes "tier \<le> 33"
      and "- (2 ^ 63) \<le> cooldown_spec (sint (minutesFlag cfg)) (unat tier)"
      and "cooldown_spec (sint (minutesFlag cfg)) (unat tier) < 2 ^ 63"
  shows "sint (cooldown cfg e tier) = cooldown_spec (sint (minutesFlag cfg)) (unat tier)"
proof -
  have "cooldown cfg e tier = word_of_int (sint (minutesFlag cfg)) * word_of_int (3 ^ unat tier) * word_of_int 60000000000"
    using assms(1) by (simp add: cooldown_def pow3_int_def Minute_def)
  also have "\<dots> = word_of_int (cooldown_spec (sint (minutesFlag cfg)) (unat tier))"
    by (simp add: cooldown_spec_def)
  finally show ?thesis
    using assms(2,3) by (simp add: sint_sbintrunc' signed_take_bit_int_eq_self)
qed

subsection \<open>The commit after a successful submission\<close>

text \<open>The map after an iteration whose tier is valid, whose identifier is eligible and
  whose transaction is accepted.\<close>

lemma funded_timeouts:
  assumes "Tier m < tiersFlag cfg"
      and "eligible timeouts (URL m) (now_check e)"
      and "send_tx e (payout_amount cfg (Tier m)) (URL m) = None"
  shows "timeouts_out (OnWebsocket_iter cfg e timeouts m)
           = timeouts(URL m \<mapsto> now_commit e + (sint (cooldown cfg e (Tier m))
                                   - sint (grace (cooldown cfg e (Tier m)))))"
proof -
  have "\<not> tiersFlag cfg \<le> Tier m"
    using assms(1) by simp
  then show ?thesis
    using assms(2,3) by (simp add: OnWebsocket_iter_def Let_def time_Add_def sint_sub_grace)
qed

text \<open>
  C5. After a successful submission the identifier's entry is the reading of the clock at
  the commit (line 160) plus the timeout of line 157 minus the grace of line 158, and the
  grace is the timeout divided by 288 with Go's integer division. With 1440 minutes and
  tier 0 the timeout is 1440 minutes, the grace 5 minutes, and the entry is the clock
  reading plus 1435 minutes. Where \<open>baseCooldownMinutes \<times> 3 ^ tier\<close> minutes fit the
  duration, the entry is the clock reading plus that cooldown minus its 288th part.
\<close>

theorem commit_is_now_plus_cooldown_minus_grace:
  assumes "Tier m < tiersFlag cfg"
      and "eligible timeouts (URL m) (now_check e)"
      and "send_tx e (payout_amount cfg (Tier m)) (URL m) = None"
  shows "timeouts_out (OnWebsocket_iter cfg e timeouts m) (URL m)
           = Some (now_commit e + (sint (cooldown cfg e (Tier m))
                     - sint (grace (cooldown cfg e (Tier m)))))
       \<and> sint (grace (cooldown cfg e (Tier m))) = sint (cooldown cfg e (Tier m)) sdiv 288
       \<and> (minutesFlag cfg = 1440 \<and> Tier m = 0 \<longrightarrow>
            sint (cooldown cfg e (Tier m)) = 1440 * sint Minute
          \<and> sint (grace (cooldown cfg e (Tier m))) = 5 * sint Minute
          \<and> timeouts_out (OnWebsocket_iter cfg e timeouts m) (URL m)
              = Some (now_commit e + 1435 * sint Minute))
       \<and> (Tier m \<le> 33
            \<and> - (2 ^ 63) \<le> cooldown_spec (sint (minutesFlag cfg)) (unat (Tier m))
            \<and> cooldown_spec (sint (minutesFlag cfg)) (unat (Tier m)) < 2 ^ 63 \<longrightarrow>
            timeouts_out (OnWebsocket_iter cfg e timeouts m) (URL m)
              = Some (now_commit e + (cooldown_spec (sint (minutesFlag cfg)) (unat (Tier m))
                        - cooldown_spec (sint (minutesFlag cfg)) (unat (Tier m)) sdiv 288)))"
proof -
  have concrete: "minutesFlag cfg = 1440 \<and> Tier m = 0 \<Longrightarrow>
      sint (cooldown cfg e (Tier m)) = 1440 * sint Minute
    \<and> sint (cooldown cfg e (Tier m)) sdiv 288 = 5 * sint Minute"
    by (simp add: cooldown_def pow3_int_def Minute_def signed_divide_int_def)
  have spec: "sint (cooldown cfg e (Tier m)) = cooldown_spec (sint (minutesFlag cfg)) (unat (Tier m))"
    if "Tier m \<le> 33"
      and "- (2 ^ 63) \<le> cooldown_spec (sint (minutesFlag cfg)) (unat (Tier m))"
      and "cooldown_spec (sint (minutesFlag cfg)) (unat (Tier m)) < 2 ^ 63"
    using that by (rule cooldown_exact)
  show ?thesis
    using funded_timeouts [OF assms] concrete spec by (auto simp: sint_grace)
qed

text \<open>The defaults, tier 0, a first request at clock reading 1000: the entry is
  1000 plus 1435 minutes.\<close>

theorem commit_is_now_plus_cooldown_minus_grace_witness:
  "Tier (req 0) < tiersFlag cfg_defaults
   \<and> eligible Map.empty (URL (req 0)) (now_check (env_ok 1000))
   \<and> send_tx (env_ok 1000) (payout_amount cfg_defaults (Tier (req 0))) (URL (req 0)) = None
   \<and> minutesFlag cfg_defaults = 1440 \<and> Tier (req 0) = 0
   \<and> Tier (req 0) \<le> 33
   \<and> cooldown_spec (sint (minutesFlag cfg_defaults)) (unat (Tier (req 0))) = 86400000000000
   \<and> timeouts_out (OnWebsocket_iter cfg_defaults (env_ok 1000) Map.empty (req 0)) ''0xabc''
       = Some 86100000001000"
proof -
  have valid: "Tier (req 0) < tiersFlag cfg_defaults"
    by (simp add: req_def cfg_defaults_def)
  have el: "eligible Map.empty (URL (req 0)) (now_check (env_ok 1000))"
    by (simp add: eligible_def lookup_timeout_def time_After_def env_ok_def)
  have sent: "send_tx (env_ok 1000) (payout_amount cfg_defaults (Tier (req 0))) (URL (req 0)) = None"
    by (simp add: env_ok_def)
  have flags: "minutesFlag cfg_defaults = 1440 \<and> Tier (req 0) = 0"
    by (simp add: req_def cfg_defaults_def)
  have spec: "cooldown_spec (sint (minutesFlag cfg_defaults)) (unat (Tier (req 0))) = 86400000000000"
    by (simp add: cooldown_spec_def req_def cfg_defaults_def)
  show ?thesis
    using commit_is_now_plus_cooldown_minus_grace [OF valid el sent] valid el sent flags spec
    by (simp add: req_def env_ok_def Minute_def)
qed

subsection \<open>The eligibility check\<close>

text \<open>An iteration calls \<^verbatim>\<open>SendTx\<close> exactly when the tier is valid and the check of
  line 142 succeeds.\<close>

lemma reaches_SendTx_iff:
  "list_ex is_CallSendTx (trace (OnWebsocket_iter cfg e timeouts m))
     \<longleftrightarrow> Tier m < tiersFlag cfg \<and> eligible timeouts (URL m) (now_check e)"
  by (auto simp: OnWebsocket_iter_def Let_def split: option.splits)

text \<open>
  C1, as the code has it. The check of line 142 is \<^verbatim>\<open>time.Now().After(timeout)\<close>: a
  request is allowed exactly when the clock reads strictly later than the identifier's
  stored time, a missing entry reading as the zero time (so it is allowed at every clock
  reading after the zero time, which every real reading is). After a successful funding
  committed at clock reading \<open>T\<close>, a request for the same identifier is rejected one
  nanosecond before \<open>T + cooldown - grace\<close>, rejected at exactly that time, and allowed
  one nanosecond after it.
\<close>

theorem eligible_strictly_after:
  "(eligible timeouts url now \<longleftrightarrow> lookup_timeout timeouts url < now)
   \<and> (timeouts url = None \<longrightarrow> (eligible timeouts url now \<longleftrightarrow> 0 < now))
   \<and> (timeouts url = Some t \<longrightarrow> (eligible timeouts url now \<longleftrightarrow> t < now))
   \<and> (list_ex is_CallSendTx (trace (OnWebsocket_iter cfg e timeouts m))
        \<longleftrightarrow> Tier m < tiersFlag cfg \<and> eligible timeouts (URL m) (now_check e))
   \<and> (Tier m < tiersFlag cfg \<and> eligible timeouts (URL m) (now_check e)
        \<and> send_tx e (payout_amount cfg (Tier m)) (URL m) = None \<longrightarrow>
        \<not> eligible (timeouts_out (OnWebsocket_iter cfg e timeouts m)) (URL m)
            (now_commit e + (sint (cooldown cfg e (Tier m)) - sint (grace (cooldown cfg e (Tier m)))) - 1)
      \<and> \<not> eligible (timeouts_out (OnWebsocket_iter cfg e timeouts m)) (URL m)
            (now_commit e + (sint (cooldown cfg e (Tier m)) - sint (grace (cooldown cfg e (Tier m)))))
      \<and> eligible (timeouts_out (OnWebsocket_iter cfg e timeouts m)) (URL m)
            (now_commit e + (sint (cooldown cfg e (Tier m)) - sint (grace (cooldown cfg e (Tier m)))) + 1))"
proof -
  have check: "eligible timeouts url now \<longleftrightarrow> lookup_timeout timeouts url < now"
    by (simp add: eligible_def time_After_def)
  have boundary: "\<not> eligible (timeouts_out (OnWebsocket_iter cfg e timeouts m)) (URL m)
            (now_commit e + (sint (cooldown cfg e (Tier m)) - sint (grace (cooldown cfg e (Tier m)))) - 1)
      \<and> \<not> eligible (timeouts_out (OnWebsocket_iter cfg e timeouts m)) (URL m)
            (now_commit e + (sint (cooldown cfg e (Tier m)) - sint (grace (cooldown cfg e (Tier m)))))
      \<and> eligible (timeouts_out (OnWebsocket_iter cfg e timeouts m)) (URL m)
            (now_commit e + (sint (cooldown cfg e (Tier m)) - sint (grace (cooldown cfg e (Tier m)))) + 1)"
    if "Tier m < tiersFlag cfg" "eligible timeouts (URL m) (now_check e)"
       "send_tx e (payout_amount cfg (Tier m)) (URL m) = None"
    using funded_timeouts [OF that] by (simp add: eligible_def time_After_def lookup_timeout_def)
  show ?thesis
    using check boundary reaches_SendTx_iff [of cfg e timeouts m]
    by (simp add: lookup_timeout_def)
qed

text \<open>An entry of 100 rejects at 100 and allows at 101; a missing entry allows at 1000;
  after the funding of tier 0 at 1000 under the defaults the boundary is 86100000001000.\<close>

theorem eligible_strictly_after_witness:
  "[''0xabc'' \<mapsto> 100] ''0xabc'' = Some 100
   \<and> \<not> eligible [''0xabc'' \<mapsto> 100] ''0xabc'' 100
   \<and> eligible [''0xabc'' \<mapsto> 100] ''0xabc'' 101
   \<and> Map.empty ''0xabc'' = None
   \<and> eligible Map.empty ''0xabc'' 1000
   \<and> Tier (req 0) < tiersFlag cfg_defaults
   \<and> send_tx (env_ok 1000) (payout_amount cfg_defaults (Tier (req 0))) (URL (req 0)) = None
   \<and> \<not> eligible (timeouts_out (OnWebsocket_iter cfg_defaults (env_ok 1000) Map.empty (req 0)))
         ''0xabc'' 86100000001000
   \<and> eligible (timeouts_out (OnWebsocket_iter cfg_defaults (env_ok 1000) Map.empty (req 0)))
         ''0xabc'' 86100000001001"
proof -
  have stored: "[''0xabc'' \<mapsto> (100::int)] ''0xabc'' = Some 100"
    by simp
  have absent: "(Map.empty :: string \<rightharpoonup> int) ''0xabc'' = None"
    by simp
  have valid: "Tier (req 0) < tiersFlag cfg_defaults"
    by (simp add: req_def cfg_defaults_def)
  have sent: "send_tx (env_ok 1000) (payout_amount cfg_defaults (Tier (req 0))) (URL (req 0)) = None"
    by (simp add: env_ok_def)
  have cd: "sint (cooldown cfg_defaults (env_ok 1000) (Tier (req 0))) = 86400000000000"
    by (simp add: cooldown_def pow3_int_def Minute_def cfg_defaults_def req_def)
  have gr: "sint (grace (cooldown cfg_defaults (env_ok 1000) (Tier (req 0)))) = 300000000000"
    by (simp add: sint_grace cd signed_divide_int_def)
  have now: "now_commit (env_ok 1000) = 1000 \<and> now_check (env_ok 1000) = 1000"
    by (simp add: env_ok_def)
  have url: "URL (req 0) = ''0xabc''"
    by (simp add: req_def)
  show ?thesis
    using eligible_strictly_after [of "[''0xabc'' \<mapsto> 100]" "''0xabc''" 100 100 cfg_defaults "env_ok 1000" "req 0"]
      eligible_strictly_after [of "[''0xabc'' \<mapsto> 100]" "''0xabc''" 101 100 cfg_defaults "env_ok 1000" "req 0"]
      eligible_strictly_after [of Map.empty "''0xabc''" 1000 0 cfg_defaults "env_ok 1000" "req 0"]
      stored absent valid sent cd gr now url
    by (simp add: lookup_timeout_def)
qed

text \<open>
  C1, as the claim words it (allowed when the clock is at or after the stored time): with
  the entry 100 and the clock at 100 the code's check differs from the specification's;
  and a request at exactly the committed time of a funding is answered without a call of
  \<^verbatim>\<open>SendTx\<close>.
\<close>

theorem at_or_after_counterexample:
  "eligible [''0xabc'' \<mapsto> 100] ''0xabc'' 100 \<noteq> CheckAndReserve_spec [''0xabc'' \<mapsto> 100] ''0xabc'' 100
   \<and> fst (OnWebsocket_loop cfg_defaults Map.empty [(env_ok 1000, req 0)]) ''0xabc'' = Some 86100000001000
   \<and> \<not> list_ex is_CallSendTx (trace (OnWebsocket_iter cfg_defaults (env_ok 86100000001000)
         (fst (OnWebsocket_loop cfg_defaults Map.empty [(env_ok 1000, req 0)])) (req 0)))"
proof -
  have funded: "timeouts_out (OnWebsocket_iter cfg_defaults (env_ok 1000) Map.empty (req 0))
      = [''0xabc'' \<mapsto> 86100000001000]"
    by (simp add: OnWebsocket_iter_def Let_def cfg_defaults_def env_ok_def req_def eligible_def
        lookup_timeout_def time_After_def time_Add_def cooldown_def pow3_int_def Minute_def
        grace_def signed_divide_int_def)
  have alive: "alive (OnWebsocket_iter cfg_defaults (env_ok 1000) Map.empty (req 0))"
    by (simp add: OnWebsocket_iter_def Let_def env_ok_def split: option.splits)
  have loop: "fst (OnWebsocket_loop cfg_defaults Map.empty [(env_ok 1000, req 0)])
      = [''0xabc'' \<mapsto> 86100000001000]"
    using funded alive by (simp add: Let_def)
  have rejected: "\<not> list_ex is_CallSendTx (trace (OnWebsocket_iter cfg_defaults
      (env_ok 86100000001000) [''0xabc'' \<mapsto> 86100000001000] (req 0)))"
    by (simp add: OnWebsocket_iter_def Let_def cfg_defaults_def env_ok_def req_def eligible_def
        lookup_timeout_def time_After_def)
  have differ: "eligible [''0xabc'' \<mapsto> 100] ''0xabc'' 100
      \<noteq> CheckAndReserve_spec [''0xabc'' \<mapsto> 100] ''0xabc'' 100"
    by (simp add: eligible_def lookup_timeout_def time_After_def CheckAndReserve_spec_def)
  show ?thesis
    using differ loop rejected by simp
qed

subsection \<open>The scope of the lock\<close>

text \<open>
  C2, as the code has it. The lock taken at line 137 is held across the call of
  \<^verbatim>\<open>SendTx\<close>: in every iteration each call of \<^verbatim>\<open>SendTx\<close> happens with the lock held,
  the lock is taken at most once (it is not released before the call and taken again for
  the commit), it is released before any reply is sent (line 150 on a failed submission,
  line 163 otherwise) and is free when the iteration ends. So whenever an iteration
  submits, the lock is not free at the submission. Every read and every write of the
  timeouts happens with the lock held. In program order, what an iteration does before
  its reply is nothing (an invalid tier), or lock, read, unlock (not eligible), or lock,
  read, \<^verbatim>\<open>SendTx\<close>, unlock (a failed submission), or lock, read, \<^verbatim>\<open>SendTx\<close>, write of the
  new time, unlock (a successful one).
\<close>

theorem lock_held_across_SendTx:
  "lock_held_at_SendTx (trace (OnWebsocket_iter cfg e timeouts m))
   \<and> lock_free_at_Send (trace (OnWebsocket_iter cfg e timeouts m))
   \<and> \<not> lock_after False (trace (OnWebsocket_iter cfg e timeouts m))
   \<and> count_list (trace (OnWebsocket_iter cfg e timeouts m)) Lock \<le> 1
   \<and> (list_ex is_CallSendTx (trace (OnWebsocket_iter cfg e timeouts m))
        \<longrightarrow> \<not> lock_free_at_SendTx (trace (OnWebsocket_iter cfg e timeouts m)))
   \<and> lock_held_at_timeouts (trace (OnWebsocket_iter cfg e timeouts m))
   \<and> (filter (\<lambda>ev. \<not> is_Send ev) (trace (OnWebsocket_iter cfg e timeouts m)) = []
      \<or> filter (\<lambda>ev. \<not> is_Send ev) (trace (OnWebsocket_iter cfg e timeouts m))
          = [Lock, ReadTimeouts (URL m), Unlock]
      \<or> filter (\<lambda>ev. \<not> is_Send ev) (trace (OnWebsocket_iter cfg e timeouts m))
          = [Lock, ReadTimeouts (URL m), CallSendTx (payout_amount cfg (Tier m)) (URL m), Unlock]
      \<or> filter (\<lambda>ev. \<not> is_Send ev) (trace (OnWebsocket_iter cfg e timeouts m))
          = [Lock, ReadTimeouts (URL m), CallSendTx (payout_amount cfg (Tier m)) (URL m),
             WriteTimeouts (URL m)
               (time_Add (now_commit e)
                  (cooldown cfg e (Tier m) - grace (cooldown cfg e (Tier m)))),
             Unlock])"
  by (simp add: OnWebsocket_iter_def Let_def lock_held_at_SendTx_def lock_free_at_Send_def
      lock_free_at_SendTx_def lock_held_at_timeouts_def split: option.splits)

text \<open>The first request of an identifier under the defaults: every event with the state
  of the lock when it happens.\<close>

theorem lock_held_across_SendTx_witness:
  "list_ex is_CallSendTx (trace (OnWebsocket_iter cfg_defaults (env_ok 1000) Map.empty (req 0)))
   \<and> lock_states False (trace (OnWebsocket_iter cfg_defaults (env_ok 1000) Map.empty (req 0)))
       = [(Lock, False), (ReadTimeouts ''0xabc'', True),
          (CallSendTx 1000000000000000000 ''0xabc'', True),
          (WriteTimeouts ''0xabc'' 86100000001000, True), (Unlock, True),
          (Send (SuccessReply ''Funding request accepted for Faucet into 0xabc''), False)]
   \<and> lock_held_at_SendTx (trace (OnWebsocket_iter cfg_defaults (env_ok 1000) Map.empty (req 0)))
   \<and> lock_free_at_Send (trace (OnWebsocket_iter cfg_defaults (env_ok 1000) Map.empty (req 0)))
   \<and> \<not> lock_free_at_SendTx (trace (OnWebsocket_iter cfg_defaults (env_ok 1000) Map.empty (req 0)))
   \<and> list_ex is_timeouts_access
         (trace (OnWebsocket_iter cfg_defaults (env_ok 1000) Map.empty (req 0)))
   \<and> lock_held_at_timeouts (trace (OnWebsocket_iter cfg_defaults (env_ok 1000) Map.empty (req 0)))"
proof -
  have tr: "trace (OnWebsocket_iter cfg_defaults (env_ok 1000) Map.empty (req 0))
      = [Lock, ReadTimeouts ''0xabc'', CallSendTx 1000000000000000000 ''0xabc'',
         WriteTimeouts ''0xabc'' 86100000001000, Unlock,
         Send (SuccessReply ''Funding request accepted for Faucet into 0xabc'')]"
    by (simp add: OnWebsocket_iter_def Let_def cfg_defaults_def env_ok_def req_def eligible_def
        lookup_timeout_def time_After_def time_Add_def cooldown_def pow3_int_def Minute_def
        grace_def signed_divide_int_def payout_amount_def int64_of_float64_def big_Exp_def
        big_Div_def ether_def)
  have locks: "lock_held_at_SendTx (trace (OnWebsocket_iter cfg_defaults (env_ok 1000) Map.empty (req 0)))
      \<and> lock_free_at_Send (trace (OnWebsocket_iter cfg_defaults (env_ok 1000) Map.empty (req 0)))
      \<and> lock_held_at_timeouts (trace (OnWebsocket_iter cfg_defaults (env_ok 1000) Map.empty (req 0)))"
    using lock_held_across_SendTx [of cfg_defaults "env_ok 1000" Map.empty "req 0"]
    by blast
  have submits: "list_ex is_CallSendTx
      (trace (OnWebsocket_iter cfg_defaults (env_ok 1000) Map.empty (req 0)))"
    by (simp add: tr)
  then have held: "\<not> lock_free_at_SendTx
      (trace (OnWebsocket_iter cfg_defaults (env_ok 1000) Map.empty (req 0)))"
    using lock_held_across_SendTx [of cfg_defaults "env_ok 1000" Map.empty "req 0"]
    by blast
  have states: "lock_states False (trace (OnWebsocket_iter cfg_defaults (env_ok 1000) Map.empty (req 0)))
       = [(Lock, False), (ReadTimeouts ''0xabc'', True),
          (CallSendTx 1000000000000000000 ''0xabc'', True),
          (WriteTimeouts ''0xabc'' 86100000001000, True), (Unlock, True),
          (Send (SuccessReply ''Funding request accepted for Faucet into 0xabc''), False)]"
    by (simp add: tr)
  have accesses: "list_ex is_timeouts_access
      (trace (OnWebsocket_iter cfg_defaults (env_ok 1000) Map.empty (req 0)))"
    by (simp add: tr)
  show ?thesis
    using locks submits held states accesses by blast
qed

text \<open>
  C2, as the claim words it (the lock is released before the submission begins): in the
  iteration of a first request under the defaults the lock is not free at the call of
  \<^verbatim>\<open>SendTx\<close>.
\<close>

theorem lock_released_before_SendTx_counterexample:
  "\<not> lock_free_at_SendTx (trace (OnWebsocket_iter cfg_defaults (env_ok 1000) Map.empty (req 0)))"
  by (simp add: OnWebsocket_iter_def Let_def cfg_defaults_def env_ok_def req_def eligible_def
      lookup_timeout_def time_After_def lock_free_at_SendTx_def)

subsection \<open>The amount\<close>

text \<open>With a non-negative tier count every valid tier is below \<open>2 ^ 63\<close>, so
  \<^verbatim>\<open>int64(msg.Tier)\<close> is the tier.\<close>

lemma uint_of_nonneg_sint:
  assumes "0 \<le> sint (n :: 64 word)"
  shows "uint n = sint n"
proof -
  have "sint n < 2 ^ 64" using sint_lt [of n] by simp
  then have "take_bit 64 (sint n) = sint n"
    using assms by (simp add: take_bit_int_eq_self)
  then show ?thesis using uint_sint [of n] by simp
qed

lemma sint_of_small_uint:
  assumes "uint (t :: 64 word) < 2 ^ 63"
  shows "sint t = uint t"
proof -
  have "- (2 ^ 63) \<le> uint t"
    by (rule order_trans [of _ 0]) simp_all
  then have "signed_take_bit 63 (uint t) = uint t"
    using assms by (rule signed_take_bit_int_eq_self)
  then show ?thesis using sint_uint [of t] by simp
qed

lemma valid_tier_signed:
  assumes "0 \<le> sint (n :: 64 word)" "t < n"
  shows "sint t = int (unat t)"
proof -
  have "uint n < 2 ^ 63" using uint_of_nonneg_sint [OF assms(1)] sint_lt [of n] by simp
  moreover have "uint t < uint n" using assms(2) by (simp add: word_less_alt)
  ultimately have "uint t < 2 ^ 63" by linarith
  then show ?thesis using sint_of_small_uint [of t] by simp
qed

text \<open>The three lines of the amount as one expression, and the division by \<open>2 ^ n\<close>
  without remainder up to tier 18, where \<open>2 ^ n\<close> divides \<open>10 ^ 18\<close>.\<close>

lemma big_Exp_nat: "big_Exp x (int n) = x ^ n"
  by (auto simp: big_Exp_def)

lemma payout_amount_nat:
  assumes "sint tier = int n"
  shows "payout_amount cfg tier = (int64_of_float64 (payoutFlag cfg) * ether * 5 ^ n) div 2 ^ n"
  using assms by (simp add: payout_amount_def big_Exp_nat big_Div_def)

lemma int64_of_float64_of_int: "int64_of_float64 (of_int b) = b"
  by (simp add: int64_of_float64_def)

lemma pow2_dvd_ether:
  assumes "n \<le> 18"
  shows "(2::int) ^ n dvd ether"
proof -
  have "(2::int) ^ n dvd 2 ^ 18"
    using assms by (rule le_imp_power_dvd)
  moreover have "(2::int) ^ 18 dvd ether"
    by (simp add: ether_def)
  ultimately show ?thesis by (rule dvd_trans)
qed

lemma payout_exact_times:
  assumes "n \<le> 18"
  shows "((b * ether * 5 ^ n) div 2 ^ n) * 2 ^ n = b * ether * 5 ^ n"
proof -
  have "(2::int) ^ n dvd b * ether * 5 ^ n"
    using pow2_dvd_ether [OF assms] by (simp add: dvd_mult dvd_mult2)
  then show ?thesis by (rule dvd_div_mult_self)
qed

text \<open>
  C3, for a base payout that is a whole number. The amount handed to \<^verbatim>\<open>SendTx\<close> at a
  valid tier \<open>t\<close> (the tier count being non-negative) with the whole base payout \<open>b\<close>
  (in the range of int64) is \<open>(b \<times> 10 ^ 18 \<times> 5 ^ t) div 2 ^ t\<close>: products of unbounded
  integers and one division that rounds down. Up to tier 18 the division has no
  remainder and the amount is the specification's rational
  \<open>basePayout \<times> 10 ^ 18 \<times> 5 ^ t / 2 ^ t\<close>.
\<close>

theorem payout_of_whole_base:
  assumes "CallSendTx amount url \<in> set (trace (OnWebsocket_iter cfg e timeouts m))"
      and "0 \<le> sint (tiersFlag cfg)"
      and "payoutFlag cfg = of_int b"
      and "- (2 ^ 63) \<le> b" and "b < 2 ^ 63"
  shows "amount = (b * 10 ^ 18 * 5 ^ unat (Tier m)) div 2 ^ unat (Tier m)
       \<and> (unat (Tier m) \<le> 18 \<longrightarrow> of_int amount = payout_spec (payoutFlag cfg) (unat (Tier m)))"
proof -
  have valid: "Tier m < tiersFlag cfg" and am: "amount = payout_amount cfg (Tier m)"
    using SendTx_in_trace [OF assms(1)] by simp_all
  have s: "sint (Tier m) = int (unat (Tier m))"
    using valid_tier_signed [OF assms(2) valid] .
  have a: "amount = (b * ether * 5 ^ unat (Tier m)) div 2 ^ unat (Tier m)"
    using am payout_amount_nat [OF s, of cfg] assms(3) by (simp add: int64_of_float64_of_int)
  have exact: "of_int amount = payout_spec (payoutFlag cfg) (unat (Tier m))"
    if le: "unat (Tier m) \<le> 18"
  proof -
    have "amount * 2 ^ unat (Tier m) = b * ether * 5 ^ unat (Tier m)"
      using a payout_exact_times [OF le, of b] by simp
    then have "(of_int (amount * 2 ^ unat (Tier m)) :: rat) = of_int (b * ether * 5 ^ unat (Tier m))"
      by simp
    then have "(of_int amount :: rat) * 2 ^ unat (Tier m) = of_int b * 10 ^ 18 * 5 ^ unat (Tier m)"
      by (simp add: ether_def)
    then show ?thesis
      using assms(3) by (simp add: payout_spec_def field_simps)
  qed
  show ?thesis
    using a exact by (simp add: ether_def)
qed

text \<open>\<^verbatim>\<open>int64(0.5)\<close> is 0.\<close>

lemma half_truncates: "int64_of_float64 (1 / 2) = 0"
proof -
  have "\<lfloor>1 / 2 :: rat\<rfloor> = 0"
    by (rule floor_unique) simp_all
  then show ?thesis by (simp add: int64_of_float64_def)
qed

text \<open>The defaults at tier 1: 2.5 units.\<close>

theorem payout_of_whole_base_witness:
  "CallSendTx 2500000000000000000 ''0xabc''
     \<in> set (trace (OnWebsocket_iter cfg_defaults (env_ok 1000) Map.empty (req 1)))
   \<and> 0 \<le> sint (tiersFlag cfg_defaults)
   \<and> payoutFlag cfg_defaults = of_int 1
   \<and> - (2 ^ 63) \<le> (1::int) \<and> (1::int) < 2 ^ 63
   \<and> unat (Tier (req 1)) \<le> 18
   \<and> (2500000000000000000::int) = (1 * 10 ^ 18 * 5 ^ unat (Tier (req 1))) div 2 ^ unat (Tier (req 1))
   \<and> (of_int 2500000000000000000 :: rat) = payout_spec (payoutFlag cfg_defaults) (unat (Tier (req 1)))"
proof -
  have called: "CallSendTx 2500000000000000000 ''0xabc''
     \<in> set (trace (OnWebsocket_iter cfg_defaults (env_ok 1000) Map.empty (req 1)))"
    by (simp add: OnWebsocket_iter_def Let_def cfg_defaults_def env_ok_def req_def eligible_def
        lookup_timeout_def time_After_def payout_amount_def int64_of_float64_def big_Exp_def
        big_Div_def ether_def word_le_nat_alt)
  have tiers: "0 \<le> sint (tiersFlag cfg_defaults)"
    by (simp add: cfg_defaults_def)
  have whole: "payoutFlag cfg_defaults = of_int 1"
    by (simp add: cfg_defaults_def)
  have lo: "- (2 ^ 63) \<le> (1::int)" and hi: "(1::int) < 2 ^ 63"
    by simp_all
  have small: "unat (Tier (req 1)) \<le> 18"
    by (simp add: req_def)
  show ?thesis
    using payout_of_whole_base [OF called tiers whole lo hi] called tiers whole small
    by simp
qed

text \<open>
  C3, as the claim words it (for every configured base payout, the exact value): with
  the base payout 0.5 the amount at tier 0 is 0, not \<open>5 \<times> 10 ^ 17\<close>; with the base
  payout 1 and 20 tiers the amount at tier 19 is the rounded-down half of \<open>5 ^ 37\<close>.
\<close>

theorem payout_exact_rational_counterexample:
  "of_int (payout_amount cfg_half 0) \<noteq> payout_spec (payoutFlag cfg_half) 0
   \<and> of_int (payout_amount cfg_tiers20 19) \<noteq> payout_spec (payoutFlag cfg_tiers20) 19"
proof -
  have "payout_amount cfg_half 0 = 0"
    by (simp add: payout_amount_def cfg_half_def half_truncates big_Exp_def big_Div_def)
  moreover have "payout_spec (payoutFlag cfg_half) 0 = 500000000000000000"
    by (simp add: payout_spec_def cfg_half_def)
  moreover have "payout_amount cfg_tiers20 19 = 36379788070917129516601562"
    by (simp add: payout_amount_def cfg_tiers20_def int64_of_float64_def big_Exp_def big_Div_def
        ether_def)
  moreover have "payout_spec (payoutFlag cfg_tiers20) 19 = 72759576141834259033203125 / 2"
    by (simp add: payout_spec_def cfg_tiers20_def)
  ultimately show ?thesis by simp
qed

text \<open>
  C9, up to tier 18. For every valid tier \<open>t\<close> with \<open>1 \<le> t \<le> 18\<close> (the tier count being
  non-negative), twice the amount of tier \<open>t\<close> is five times the amount of tier
  \<open>t - 1\<close>, for every base payout; when the base payout's integer part is not 0 the
  amounts are not 0 and their ratio is the rational \<open>5 / 2\<close>.
\<close>

theorem payout_ratio_small_tiers:
  assumes "0 \<le> sint (tiersFlag cfg)" and "t < tiersFlag cfg" and "1 \<le> t" and "t \<le> 18"
  shows "2 * payout_amount cfg t = 5 * payout_amount cfg (t - 1)
       \<and> (int64_of_float64 (payoutFlag cfg) \<noteq> 0 \<longrightarrow>
            (of_int (payout_amount cfg t) :: rat) / of_int (payout_amount cfg (t - 1)) = 5 / 2)"
proof -
  obtain k where k: "unat t = Suc k"
    using assms(3) by (cases "unat t") (auto simp: word_le_nat_alt)
  have le: "Suc k \<le> 18"
    using assms(4) k by (simp add: word_le_nat_alt)
  have pred: "unat (t - 1) = k"
    using assms(3) k by (simp add: unat_sub)
  have "t - 1 < tiersFlag cfg"
    using assms(2) pred k by (simp add: word_less_nat_alt)
  then have s1: "sint (t - 1) = int k"
    using valid_tier_signed [OF assms(1), of "t - 1"] pred by simp
  have s: "sint t = int (Suc k)"
    using valid_tier_signed [OF assms(1,2)] k by simp
  define B where "B = int64_of_float64 (payoutFlag cfg)"
  have hi: "payout_amount cfg t * 2 ^ Suc k = B * ether * 5 ^ Suc k"
    using payout_amount_nat [OF s, of cfg] payout_exact_times [OF le, of B] by (simp add: B_def)
  have lo: "payout_amount cfg (t - 1) * 2 ^ k = B * ether * 5 ^ k"
    using payout_amount_nat [OF s1, of cfg] payout_exact_times [of k B] le by (simp add: B_def)
  have "(2 * payout_amount cfg t) * 2 ^ k = (5 * payout_amount cfg (t - 1)) * 2 ^ k"
    using hi lo by (simp add: mult_ac)
  then have cross: "2 * payout_amount cfg t = 5 * payout_amount cfg (t - 1)"
    by simp
  have ratio: "(of_int (payout_amount cfg t) :: rat) / of_int (payout_amount cfg (t - 1)) = 5 / 2"
    if "B \<noteq> 0"
  proof -
    have "B * ether * 5 ^ k \<noteq> 0"
      using that by (simp add: ether_def)
    then have nz: "payout_amount cfg (t - 1) \<noteq> 0"
      using lo by auto
    have "(of_int (2 * payout_amount cfg t) :: rat) = of_int (5 * payout_amount cfg (t - 1))"
      using cross by simp
    then have "2 * (of_int (payout_amount cfg t) :: rat) = 5 * of_int (payout_amount cfg (t - 1))"
      by simp
    then show ?thesis
      using nz by (simp add: field_simps)
  qed
  show ?thesis
    using cross ratio by (simp add: B_def)
qed

text \<open>The defaults at tier 1.\<close>

theorem payout_ratio_small_tiers_witness:
  "0 \<le> sint (tiersFlag cfg_defaults) \<and> (1::64 word) < tiersFlag cfg_defaults
   \<and> (1::64 word) \<le> 1 \<and> (1::64 word) \<le> 18
   \<and> int64_of_float64 (payoutFlag cfg_defaults) \<noteq> 0
   \<and> (of_int (payout_amount cfg_defaults 1) :: rat) / of_int (payout_amount cfg_defaults (1 - 1)) = 5 / 2"
proof -
  have tiers: "0 \<le> sint (tiersFlag cfg_defaults)"
    by (simp add: cfg_defaults_def)
  have valid: "(1::64 word) < tiersFlag cfg_defaults"
    by (simp add: cfg_defaults_def word_less_nat_alt)
  have pos: "(1::64 word) \<le> 1"
    by simp
  have small: "(1::64 word) \<le> 18"
    by (simp add: word_le_nat_alt)
  have base: "int64_of_float64 (payoutFlag cfg_defaults) \<noteq> 0"
    by (simp add: cfg_defaults_def int64_of_float64_def)
  show ?thesis
    using payout_ratio_small_tiers [OF tiers valid pos small] tiers valid pos small base
    by simp
qed

text \<open>
  C9, as the claim words it (every tier of the configured range): with 20 tiers and the
  base payout 1, the amounts of tiers 19 and 18 are not in the ratio \<open>5 / 2\<close>, the
  division by \<open>2 ^ 19\<close> having rounded down.
\<close>

theorem payout_ratio_counterexample:
  "(19::64 word) < tiersFlag cfg_tiers20
   \<and> (of_int (payout_amount cfg_tiers20 19) :: rat) / of_int (payout_amount cfg_tiers20 (19 - 1)) \<noteq> 5 / 2"
proof -
  have "payout_amount cfg_tiers20 19 = 36379788070917129516601562"
    by (simp add: payout_amount_def cfg_tiers20_def int64_of_float64_def big_Exp_def big_Div_def
        ether_def)
  moreover have "payout_amount cfg_tiers20 (19 - 1) = 14551915228366851806640625"
    by (simp add: payout_amount_def cfg_tiers20_def int64_of_float64_def big_Exp_def big_Div_def
        ether_def)
  ultimately show ?thesis by (simp add: cfg_tiers20_def)
qed

text \<open>
  C10. The amount depends on the configured base payout only through
  \<^verbatim>\<open>int64(*payoutFlag)\<close>: two configurations whose base payouts convert to the same
  integer pay the same amount at every tier. A fraction \<open>0 \<le> f < 1\<close> added to a whole
  non-negative base payout \<open>b\<close> is dropped by the conversion, so the amounts are those of
  \<open>b\<close>; with the base payout 0.5 the amount is 0 at every tier.
\<close>

theorem payout_depends_on_truncated_base:
  "(int64_of_float64 (payoutFlag cfg) = int64_of_float64 (payoutFlag cfg')
      \<longrightarrow> payout_amount cfg tier = payout_amount cfg' tier)
   \<and> (0 \<le> b \<and> 0 \<le> f \<and> f < 1 \<and> payoutFlag cfg = of_int b + f \<and> payoutFlag cfg' = of_int b
      \<longrightarrow> int64_of_float64 (payoutFlag cfg) = b \<and> payout_amount cfg tier = payout_amount cfg' tier)
   \<and> (payoutFlag cfg = 1 / 2 \<longrightarrow> payout_amount cfg tier = 0)"
proof -
  have same: "payout_amount cfg tier = payout_amount cfg' tier"
    if "int64_of_float64 (payoutFlag cfg) = int64_of_float64 (payoutFlag cfg')"
    using that by (simp add: payout_amount_def)
  have frac: "int64_of_float64 (of_int b + f) = b" if "0 \<le> b" "0 \<le> f" "f < 1"
  proof -
    have "\<lfloor>of_int b + f\<rfloor> = b"
      using that by (intro floor_unique) simp_all
    moreover have "0 \<le> of_int b + f"
      using that by simp
    ultimately show ?thesis by (simp add: int64_of_float64_def)
  qed
  have half: "payout_amount cfg tier = 0" if "payoutFlag cfg = 1 / 2"
  proof -
    have "int64_of_float64 (payoutFlag cfg) = 0"
      by (simp only: that half_truncates)
    then show ?thesis
      by (simp add: payout_amount_def big_Div_def)
  qed
  show ?thesis
    using same frac half by (auto simp: int64_of_float64_of_int)
qed

text \<open>The base payouts 1.5 and 1 pay the same at tier 1; the base payout 0.5 pays 0.\<close>

theorem payout_depends_on_truncated_base_witness:
  "(0::int) \<le> 1 \<and> (0::rat) \<le> 1 / 2 \<and> (1 / 2 :: rat) < 1
   \<and> payoutFlag \<lparr>tiersFlag = 2, payoutFlag = 3 / 2, minutesFlag = 1440\<rparr> = of_int 1 + 1 / 2
   \<and> payoutFlag cfg_defaults = of_int 1
   \<and> int64_of_float64 (payoutFlag \<lparr>tiersFlag = 2, payoutFlag = 3 / 2, minutesFlag = 1440\<rparr>) = 1
   \<and> payout_amount \<lparr>tiersFlag = 2, payoutFlag = 3 / 2, minutesFlag = 1440\<rparr> 1
       = payout_amount cfg_defaults 1
   \<and> payoutFlag cfg_half = 1 / 2
   \<and> payout_amount cfg_half 1 = 0"
proof -
  have f: "payoutFlag \<lparr>tiersFlag = 2, payoutFlag = 3 / 2, minutesFlag = 1440\<rparr> = of_int 1 + 1 / 2"
    by simp
  have g: "payoutFlag cfg_defaults = of_int 1"
    by (simp add: cfg_defaults_def)
  have h: "payoutFlag cfg_half = 1 / 2"
    by (simp add: cfg_half_def)
  show ?thesis
    using payout_depends_on_truncated_base
        [of "\<lparr>tiersFlag = 2, payoutFlag = 3 / 2, minutesFlag = 1440\<rparr>" cfg_defaults 1 1 "1 / 2"]
      payout_depends_on_truncated_base [of cfg_half cfg_defaults 1 1 "1 / 2"] f g h
    by simp
qed

subsection \<open>The timeout at a large tier\<close>

text \<open>
  C6, at tier 11 of 20 with 1440 minutes. The tier is valid; \<open>1440 \<times> 3 ^ 11\<close> minutes
  are 15305500800000000000 nanoseconds, more than \<open>2 ^ 63\<close>; the product of line 157
  wraps, and the timeout is the negative duration -3141243273709551616.
\<close>

theorem cooldown_wraps_at_tier_11:
  "(11::64 word) < tiersFlag cfg_tiers20
   \<and> cooldown_spec (sint (minutesFlag cfg_tiers20)) (unat (11::64 word)) = 15305500800000000000
   \<and> sint (cooldown cfg_tiers20 (env_ok 1000) 11) = - 3141243273709551616"
  by (simp add: cfg_tiers20_def cooldown_spec_def cooldown_def pow3_int_def Minute_def
      word_less_nat_alt)

text \<open>While the timeout of line 157 is not negative and the clock does not run backwards
  between the check and the commit, no entry moves backwards in an iteration (a missing
  entry reading as the zero time).\<close>

lemma timeouts_move_forward:
  assumes "0 \<le> sint (cooldown cfg e (Tier m))" and "now_check e \<le> now_commit e"
  shows "lookup_timeout timeouts url
           \<le> lookup_timeout (timeouts_out (OnWebsocket_iter cfg e timeouts m)) url"
  using assms sub_grace_nonneg [OF assms(1)]
  by (auto simp: OnWebsocket_iter_def Let_def lookup_timeout_def eligible_def time_After_def
      time_Add_def split: option.splits)

text \<open>
  C8, at tier 11 of 20 with 1440 minutes. An identifier funded at tier 0 at clock
  reading 1000 has the entry 86100000001000. Funded again at tier 11 at the later
  reading 90000000000000, its entry becomes -3130246179009171229, earlier than the entry
  it replaces and than both readings: the wrapped timeout of line 157 is negative.
\<close>

theorem timeout_moves_backward_at_tier_11:
  "fst (OnWebsocket_loop cfg_tiers20 Map.empty [(env_ok 1000, req 0)]) ''0xabc''
     = Some 86100000001000
   \<and> fst (OnWebsocket_loop cfg_tiers20 Map.empty
           [(env_ok 1000, req 0), (env_ok 90000000000000, req 11)]) ''0xabc''
     = Some (- 3130246179009171229)"
proof -
  have first: "OnWebsocket_iter cfg_tiers20 (env_ok 1000) Map.empty (req 0)
      = \<lparr>timeouts_out = [''0xabc'' \<mapsto> 86100000001000],
         trace = [Lock, ReadTimeouts ''0xabc'', CallSendTx 1000000000000000000 ''0xabc'',
                  WriteTimeouts ''0xabc'' 86100000001000, Unlock,
                  Send (SuccessReply ''Funding request accepted for Faucet into 0xabc'')],
         alive = True\<rparr>"
    by (simp add: OnWebsocket_iter_def Let_def cfg_tiers20_def env_ok_def req_def eligible_def
        lookup_timeout_def time_After_def time_Add_def cooldown_def pow3_int_def Minute_def
        grace_def signed_divide_int_def payout_amount_def int64_of_float64_def big_Exp_def
        big_Div_def ether_def)
  have second: "timeouts_out (OnWebsocket_iter cfg_tiers20 (env_ok 90000000000000)
        [''0xabc'' \<mapsto> 86100000001000] (req 11)) ''0xabc''
      = Some (- 3130246179009171229)"
    by (simp add: OnWebsocket_iter_def Let_def cfg_tiers20_def env_ok_def req_def eligible_def
        lookup_timeout_def time_After_def time_Add_def cooldown_def pow3_int_def Minute_def
        grace_def signed_divide_int_def word_le_nat_alt)
  show ?thesis
    using second by (simp add: first Let_def split: prod.splits)
qed

end
